theory Spec2Isabelle
  imports
    Main
    "HOL-Library.Word"
    "HOL-Library.Char_ord"
    "HOL-Library.List_Lexorder"
    "HOL-Library.Product_Lexorder"
begin

section \<open>JavaScript values\<close>

text \<open>
  The cloud producer is TypeScript running on Node. Its interfaces become records, the
  two-valued tag \<open>'normal' | 'essence'\<close> becomes a datatype, and everything typed
  \<open>any\<close> (the argument of \<open>removeUndefined\<close>, the documents of the Firestore
  collection, the content payloads that arrive through \<open>JSON.parse\<close>) is a tree of
  JavaScript values.

  A JavaScript \<open>number\<close> is modelled by \<open>NaN\<close> and the integers. Every number the
  producer computes with is one of these: \<open>parseInt\<close> yields an integer or \<open>NaN\<close>,
  the clock yields integral milliseconds, and a sequence index is a length plus one.
  Integers of magnitude below \<open>2 ^ 53\<close> are exact in IEEE double arithmetic;
  beyond it the doubles round, which the model does not follow (comparison with the
  bounds 1 and 365 is unaffected by that rounding).
\<close>

datatype number = NaN | Num int

fun num_less :: "number \<Rightarrow> number \<Rightarrow> bool" where
  "num_less (Num a) (Num b) = (a < b)"
| "num_less _ _ = False"

fun num_add :: "number \<Rightarrow> number \<Rightarrow> number" where
  "num_add (Num a) (Num b) = Num (a + b)"
| "num_add _ _ = NaN"

fun num_mul :: "number \<Rightarrow> number \<Rightarrow> number" where
  "num_mul (Num a) (Num b) = Num (a * b)"
| "num_mul _ _ = NaN"

text \<open>
  An object is its prototype and the list of its own enumerable properties in property
  order, as \<open>Object.entries\<close> enumerates them. The prototype is \<open>None\<close> for
  \<open>Object.prototype\<close>, the prototype of every object literal and of every object
  \<open>JSON.parse\<close> builds, and \<open>Some p\<close> once it has been replaced by \<open>p\<close> (an
  object, an array or \<open>null\<close>). \<open>JSON.parse\<close> can deliver an own property named
  \<open>__proto__\<close>.
\<close>

datatype jsval =
    Undefined
  | Null
  | Boolean bool
  | Number number
  | String string
  | Array "jsval list"
  | Object "jsval option" "(string \<times> jsval) list"

text \<open>
  \<open>upsert ps k v\<close> is the assignment \<open>ps[k] = v\<close> on a keyed collection: an existing
  key keeps its position and takes the new value, a new key goes to the end. It serves
  for a property assignment on an object, for \<open>docRef.set\<close> on a collection and for
  \<open>file.save\<close> on a bucket (both overwrite).
\<close>

fun upsert :: "('k \<times> 'v) list \<Rightarrow> 'k \<Rightarrow> 'v \<Rightarrow> ('k \<times> 'v) list" where
  "upsert [] k v = [(k, v)]"
| "upsert ((k', v') # ps) k v =
     (if k' = k then (k', v) # ps else (k', v') # upsert ps k v)"

text \<open>
  \<open>cleaned[key] = v\<close> on an ordinary extensible object whose properties are plain
  data. For the name \<open>__proto__\<close> the assignment reaches the setter of
  \<open>Object.prototype\<close>: it creates no property; it replaces the prototype when \<open>v\<close>
  is an object, an array or \<open>null\<close>, and does nothing otherwise.
\<close>

fun is_object_or_null :: "jsval \<Rightarrow> bool" where
  "is_object_or_null Null = True"
| "is_object_or_null (Array xs) = True"
| "is_object_or_null (Object p kvs) = True"
| "is_object_or_null v = False"

fun assign :: "jsval \<Rightarrow> string \<Rightarrow> jsval \<Rightarrow> jsval" where
  "assign (Object p kvs) key v =
     (if key = ''__proto__''
      then (if is_object_or_null v then Object (Some v) kvs else Object p kvs)
      else Object p (upsert kvs key v))"
| "assign obj key v = obj"

text \<open>
  Reading an own property: \<open>obj.name\<close> for an object with the default prototype (a
  document as \<open>doc.data()\<close> returns it) and a name \<open>Object.prototype\<close> does not
  define, and the field of that name of a stored document; \<open>undefined\<close> when the
  property is missing.
\<close>

fun get_prop :: "jsval \<Rightarrow> string \<Rightarrow> jsval" where
  "get_prop (Object p kvs) name = (case map_of kvs name of Some v \<Rightarrow> v | None \<Rightarrow> Undefined)"
| "get_prop _ name = Undefined"

fun has_prop :: "jsval \<Rightarrow> string \<Rightarrow> bool" where
  "has_prop (Object p kvs) name = (map_of kvs name \<noteq> None)"
| "has_prop _ name = False"

text \<open>
  The plain data of a value: what Firestore keeps of a map is its fields, and
  \<open>doc.data()\<close> returns them as objects with the default prototype.
\<close>

fun plain :: "jsval \<Rightarrow> jsval" where
  "plain (Array xs) = Array (map plain xs)"
| "plain (Object p kvs) = Object None (map (\<lambda>kv. (fst kv, plain (snd kv))) kvs)"
| "plain v = v"

fun contains_undefined :: "jsval \<Rightarrow> bool" where
  "contains_undefined Undefined = True"
| "contains_undefined (Array xs) = list_ex contains_undefined xs"
| "contains_undefined (Object p kvs) = list_ex (\<lambda>kv. contains_undefined (snd kv)) kvs"
| "contains_undefined v = False"

text \<open>Every object of a JavaScript value has pairwise different property names.\<close>

fun unique_keys :: "jsval \<Rightarrow> bool" where
  "unique_keys (Array xs) = list_all unique_keys xs"
| "unique_keys (Object p kvs) =
     (distinct (map fst kvs) \<and> list_all (\<lambda>kv. unique_keys (snd kv)) kvs)"
| "unique_keys v = True"

subsection \<open>Decimal text of numbers\<close>

definition digit_char :: "nat \<Rightarrow> char" where
  "digit_char n = ''0123456789'' ! (n mod 10)"

fun digits :: "nat \<Rightarrow> string" where
  "digits n = (if n < 10 then [digit_char n] else digits (n div 10) @ [digit_char (n mod 10)])"

declare digits.simps [simp del]

text \<open>\<open>String(i)\<close> for an integer \<open>i\<close> (of magnitude below \<open>10 ^ 21\<close>).\<close>

definition number_to_string :: "int \<Rightarrow> string" where
  "number_to_string i = (if i < 0 then ''-'' @ digits (nat (- i)) else digits (nat i))"

text \<open>\<open>String(n).padStart(w, '0')\<close> for a natural number.\<close>

definition pad :: "nat \<Rightarrow> nat \<Rightarrow> string" where
  "pad w n = (let s = digits n in replicate (w - length s) (CHR ''0'') @ s)"

section \<open>Configuration (config.ts)\<close>

datatype error = Error string | RangeError string | TransportError string

record CloudConfig =
  projectId :: string
  storageBucket :: string
  storageRegion :: string
  firestoreDatabase :: string
  firestoreCollection :: string
  assetRetentionDays :: number
  dryRun :: bool
  mode :: string
  credentialsPath :: "string option"

text \<open>
  \<open>parseInt(s, 10)\<close> as ECMAScript defines it: leading white space is skipped, a sign
  is read, and the longest prefix of decimal digits is the value; no digit at all is
  \<open>NaN\<close>. (White space is the ASCII white space.)
\<close>

definition is_js_whitespace :: "char \<Rightarrow> bool" where
  "is_js_whitespace c = (c \<in> set [CHR '' '', CHR 0x09, CHR 0x0A, CHR 0x0B, CHR 0x0C, CHR 0x0D])"

definition is_digit :: "char \<Rightarrow> bool" where
  "is_digit c = (c \<in> set ''0123456789'')"

definition digit_value :: "char \<Rightarrow> nat" where
  "digit_value c = of_char c - 48"

definition parseInt :: "string \<Rightarrow> number" where
  "parseInt s =
     (let t = dropWhile is_js_whitespace s;
          negative = (t \<noteq> [] \<and> hd t = CHR ''-'');
          u = (if t \<noteq> [] \<and> (hd t = CHR ''-'' \<or> hd t = CHR ''+'') then tl t else t);
          z = takeWhile is_digit u
      in if z = [] then NaN
         else Num ((if negative then - 1 else 1) * int (foldl (\<lambda>a c. 10 * a + digit_value c) 0 z)))"

text \<open>\<open>process.env.NAME || fallback\<close>: an unset or empty setting takes the fallback.\<close>

definition env_or :: "(string \<Rightarrow> string option) \<Rightarrow> string \<Rightarrow> string \<Rightarrow> string" where
  "env_or e name fallback =
     (case e name of None \<Rightarrow> fallback | Some v \<Rightarrow> if v = [] then fallback else v)"

definition loadCloudConfig :: "(string \<Rightarrow> string option) \<Rightarrow> CloudConfig" where
  "loadCloudConfig e =
     \<lparr> projectId = env_or e ''GOOGLE_CLOUD_PROJECT'' ''today-in-emojis'',
       storageBucket = env_or e ''CLOUD_STORAGE_BUCKET'' ''today-in-emojis-assets'',
       storageRegion = env_or e ''CLOUD_STORAGE_REGION'' ''us-central1'',
       firestoreDatabase = env_or e ''FIRESTORE_DATABASE'' ''(default)'',
       firestoreCollection = env_or e ''FIRESTORE_COLLECTION'' ''editions'',
       assetRetentionDays = parseInt (env_or e ''ASSET_RETENTION_DAYS'' ''30''),
       dryRun = (e ''CLOUD_DRY_RUN'' = Some ''true''),
       mode = env_or e ''CLOUD_MODE'' ''parallel'',
       credentialsPath = e ''GOOGLE_APPLICATION_CREDENTIALS'' \<rparr>"

text \<open>
  \<open>validateConfig\<close> throws or returns nothing. Its console output (the warning about
  missing credentials, the summary) is not modelled.
\<close>

definition validateConfig :: "CloudConfig \<Rightarrow> error + unit" where
  "validateConfig config =
     (if projectId config = [] then Inl (Error ''GOOGLE_CLOUD_PROJECT is required'')
      else if storageBucket config = [] then Inl (Error ''CLOUD_STORAGE_BUCKET is required'')
      else if num_less (assetRetentionDays config) (Num 1)
              \<or> num_less (Num 365) (assetRetentionDays config)
        then Inl (Error ''ASSET_RETENTION_DAYS must be between 1 and 365'')
      else Inr ())"

section \<open>The state the producer runs in\<close>

text \<open>
  Everything outside the pure code is explicit state: the process environment, the
  module-level configuration singleton, the system clock, and the two external
  services. The clock is the sequence of instants (milliseconds since the epoch) its
  successive readings return; \<open>ticks\<close> counts the readings made so far. A service
  answers or fails as a whole (\<open>firestore_available\<close>, \<open>storage_available\<close>); a
  bucket exists or not. Every request sent to a service is appended to \<open>network\<close>.
  Console output and the lazily created client objects are not modelled.
\<close>

type_synonym buffer = "8 word list"

record stored_object =
  content :: buffer
  contentType :: string
  cacheControl :: string
  publicRead :: bool

datatype net_op =
    StorageSave string string
  | StorageExists string
  | FirestoreQuery string string
  | FirestoreSet string string
  | FirestoreLimitGet string

record world =
  env :: "string \<Rightarrow> string option"
  configInstance :: "CloudConfig option"
  clock :: "nat \<Rightarrow> int"
  ticks :: nat
  storage_available :: bool
  buckets :: "string \<Rightarrow> (string \<times> stored_object) list option"
  firestore_available :: bool
  collections :: "string \<Rightarrow> (string \<times> jsval) list"
  network :: "net_op list"

text \<open>
  An asynchronous function is a state transformer that returns a value or throws
  (rejects): \<open>Inl\<close> is the error. \<open>io_bind\<close> is \<open>await\<close> followed by the rest of
  the function; an error skips the rest.
\<close>

type_synonym 'a io = "world \<Rightarrow> (error + 'a) \<times> world"

definition io_return :: "'a \<Rightarrow> 'a io" where
  "io_return x w = (Inr x, w)"

definition io_bind :: "'a io \<Rightarrow> ('a \<Rightarrow> 'b io) \<Rightarrow> 'b io" where
  "io_bind m f w = (case m w of (Inl e, w') \<Rightarrow> (Inl e, w') | (Inr x, w') \<Rightarrow> f x w')"

definition io_lift :: "error + 'a \<Rightarrow> 'a io" where
  "io_lift r w = (r, w)"

text \<open>
  \<open>getCloudConfig\<close>: the singleton is assigned before it is validated, so a
  configuration that fails validation stays cached.
\<close>

definition getCloudConfig :: "CloudConfig io" where
  "getCloudConfig w =
     (case configInstance w of
        Some config \<Rightarrow> (Inr config, w)
      | None \<Rightarrow>
          (let config = loadCloudConfig (env w);
               w' = w\<lparr>configInstance := Some config\<rparr>
           in case validateConfig config of
                Inl e \<Rightarrow> (Inl e, w')
              | Inr _ \<Rightarrow> (Inr config, w')))"

section \<open>Dates\<close>

text \<open>
  The built-in \<open>Date\<close>, as ECMAScript defines it. A time value is \<open>NaN\<close> (an invalid
  date) or a number of milliseconds since 1970-01-01T00:00:00Z of magnitude at most
  \<open>8.64 * 10 ^ 15\<close>. \<open>civil_from_days\<close> is the proleptic Gregorian calendar date of
  a day number; \<open>toISOString\<close> throws a \<open>RangeError\<close> on an invalid date.
\<close>

definition Date_now :: "int io" where
  "Date_now w = (Inr (clock w (ticks w)), w\<lparr>ticks := Suc (ticks w)\<rparr>)"

definition TimeClip :: "number \<Rightarrow> number" where
  "TimeClip t =
     (case t of NaN \<Rightarrow> NaN
      | Num v \<Rightarrow> if \<bar>v\<bar> > 8640000000000000 then NaN else Num v)"

definition civil_from_days :: "int \<Rightarrow> int \<times> int \<times> int" where
  "civil_from_days n =
     (let z = n + 719468;
          era = z div 146097;
          doe = z mod 146097;
          yoe = (doe - doe div 1460 + doe div 36524 - doe div 146096) div 365;
          doy = doe - (365 * yoe + yoe div 4 - yoe div 100);
          mp = (5 * doy + 2) div 153;
          d = doy - (153 * mp + 2) div 5 + 1;
          m = (if mp < 10 then mp + 3 else mp - 9);
          y = yoe + era * 400 + (if m \<le> 2 then 1 else 0)
      in (y, m, d))"

definition iso_year :: "int \<Rightarrow> string" where
  "iso_year y =
     (if 0 \<le> y \<and> y \<le> 9999 then pad 4 (nat y)
      else (if y < 0 then ''-'' else ''+'') @ pad 6 (nat \<bar>y\<bar>))"

definition toISOString :: "number \<Rightarrow> error + string" where
  "toISOString tv =
     (case tv of
        NaN \<Rightarrow> Inl (RangeError ''Invalid time value'')
      | Num t \<Rightarrow>
          (let ymd = civil_from_days (t div 86400000);
               ms = t mod 86400000
           in Inr (iso_year (fst ymd) @ ''-'' @ pad 2 (nat (fst (snd ymd))) @ ''-''
                   @ pad 2 (nat (snd (snd ymd))) @ ''T''
                   @ pad 2 (nat (ms div 3600000)) @ '':''
                   @ pad 2 (nat (ms div 60000 mod 60)) @ '':''
                   @ pad 2 (nat (ms div 1000 mod 60)) @ ''.''
                   @ pad 3 (nat (ms mod 1000)) @ ''Z'')))"

text \<open>\<open>new Date().toISOString()\<close>: one reading of the clock.\<close>

definition new_Date_toISOString :: "string io" where
  "new_Date_toISOString = io_bind Date_now (\<lambda>now. io_lift (toISOString (TimeClip (Num now))))"

section \<open>The edition schema (schema/edition.ts)\<close>

datatype post_type = Normal | Essence

definition post_type_string :: "post_type \<Rightarrow> string" where
  "post_type_string t = (case t of Normal \<Rightarrow> ''normal'' | Essence \<Rightarrow> ''essence'')"

record AssetMetadata =
  image_url :: string
  image_path :: string
  expires_at :: string

record SourceMetadata =
  rss_sources :: "string list"
  model :: string
  provider :: string
  created_at :: string

text \<open>
  The optional content fields hold the payload as it arrived, or \<open>Undefined\<close> when
  absent: the producer never looks inside them.
\<close>

record CloudEdition =
  edition_id :: string
  date :: string
  timestamp :: string
  post_type :: post_type
  emojis :: jsval
  essence :: jsval
  assets :: AssetMetadata
  source_meta :: SourceMetadata

text \<open>The edition as the JavaScript object the producer builds, in the order of its literal.\<close>

definition js_of_edition :: "CloudEdition \<Rightarrow> jsval" where
  "js_of_edition e =
     Object None
       [(''edition_id'', String (edition_id e)),
        (''date'', String (date e)),
        (''timestamp'', String (timestamp e)),
        (''post_type'', String (post_type_string (post_type e))),
        (''emojis'', emojis e),
        (''essence'', essence e),
        (''assets'',
           Object None
             [(''image_url'', String (image_url (assets e))),
              (''image_path'', String (image_path (assets e))),
              (''expires_at'', String (expires_at (assets e)))]),
        (''source_meta'',
           Object None
             [(''rss_sources'', Array (map String (rss_sources (source_meta e)))),
              (''model'', String (model (source_meta e))),
              (''provider'', String (provider (source_meta e))),
              (''created_at'', String (created_at (source_meta e)))])]"

section \<open>Cloud Storage client (storage.ts)\<close>

record UploadResult =
  url :: string
  path :: string
  expiresAt :: string

text \<open>\<open>s.split(sep)\<close> for a one-character separator: never the empty list.\<close>

fun js_split :: "char \<Rightarrow> string \<Rightarrow> string list" where
  "js_split sep [] = [[]]"
| "js_split sep (c # cs) =
     (if c = sep then [] # js_split sep cs
      else (case js_split sep cs of [] \<Rightarrow> [[c]] | p # ps \<Rightarrow> (c # p) # ps))"

text \<open>
  Array destructuring gives \<open>undefined\<close> for a missing element, and a template
  literal prints \<open>undefined\<close> as the text "undefined".
\<close>

definition element :: "'a list \<Rightarrow> nat \<Rightarrow> 'a option" where
  "element xs i = (if i < length xs then Some (xs ! i) else None)"

definition template_string :: "string option \<Rightarrow> string" where
  "template_string v = (case v of None \<Rightarrow> ''undefined'' | Some s \<Rightarrow> s)"

definition template_number :: "int option \<Rightarrow> string" where
  "template_number v = (case v of None \<Rightarrow> ''undefined'' | Some i \<Rightarrow> number_to_string i)"

text \<open>\<open>file.save\<close>: one request; it fails when the service or the bucket is not there.\<close>

definition file_save :: "string \<Rightarrow> string \<Rightarrow> buffer \<Rightarrow> unit io" where
  "file_save bucket name imageBuffer w =
     (let w' = w\<lparr>network := network w @ [StorageSave bucket name]\<rparr>;
          obj = \<lparr> content = imageBuffer, contentType = ''image/png'',
                  cacheControl = ''public, max-age=31536000'', publicRead = True \<rparr>
      in if \<not> storage_available w then (Inl (TransportError ''storage unavailable''), w')
         else (case buckets w bucket of
                 None \<Rightarrow> (Inl (TransportError ''bucket not found''), w')
               | Some objs \<Rightarrow>
                   (Inr (), w'\<lparr>buckets := (buckets w)(bucket := Some (upsert objs name obj))\<rparr>)))"

definition uploadImage :: "buffer \<Rightarrow> string \<Rightarrow> post_type \<Rightarrow> int option \<Rightarrow> UploadResult io" where
  "uploadImage imageBuffer date' type index =
     io_bind getCloudConfig (\<lambda>config.
       let parts = js_split (CHR ''-'') date';
           year = element parts 0;
           month = element parts 1;
           day = element parts 2;
           filename = (if type = Essence then ''essence.png''
                       else ''normal-'' @ template_number index @ ''.png'');
           path = template_string year @ ''/'' @ template_string month @ ''/''
                    @ template_string day @ ''/'' @ filename
       in if dryRun config then
            (let mockUrl = ''https://storage.googleapis.com/'' @ storageBucket config @ ''/'' @ path
             in io_bind Date_now (\<lambda>now.
                io_bind (io_lift (toISOString (TimeClip
                   (num_add (Num now)
                      (num_mul (num_mul (num_mul (num_mul (assetRetentionDays config)
                         (Num 24)) (Num 60)) (Num 60)) (Num 1000)))))) (\<lambda>expiresAt.
                io_return \<lparr> url = mockUrl, path = path, expiresAt = expiresAt \<rparr>)))
          else
            io_bind (file_save (storageBucket config) path imageBuffer) (\<lambda>_.
              let url = ''https://storage.googleapis.com/'' @ storageBucket config @ ''/'' @ path
              in io_bind Date_now (\<lambda>now.
                 io_bind (io_lift (toISOString (TimeClip
                    (num_add (Num now)
                       (num_mul (num_mul (num_mul (num_mul (assetRetentionDays config)
                          (Num 24)) (Num 60)) (Num 60)) (Num 1000)))))) (\<lambda>expiresAt.
                 io_return \<lparr> url = url, path = path, expiresAt = expiresAt \<rparr>))))"

text \<open>\<open>bucket.exists()\<close>: one request; a failure is caught and reported as \<open>false\<close>.\<close>

definition bucket_exists :: "string \<Rightarrow> bool io" where
  "bucket_exists bucket w =
     (let w' = w\<lparr>network := network w @ [StorageExists bucket]\<rparr>
      in if \<not> storage_available w then (Inl (TransportError ''storage unavailable''), w')
         else (Inr (buckets w bucket \<noteq> None), w'))"

definition checkBucketAccess :: "bool io" where
  "checkBucketAccess =
     io_bind getCloudConfig (\<lambda>config.
       if dryRun config then io_return True
       else (\<lambda>w. case bucket_exists (storageBucket config) w of
                    (Inl e, w') \<Rightarrow> (Inr False, w')
                  | (Inr exists, w') \<Rightarrow> (if \<not> exists then (Inr False, w') else (Inr True, w'))))"

section \<open>Firestore client (database.ts)\<close>

text \<open>
  The object branch starts from \<open>{}\<close> and assigns the cleaned value of every own
  property that is not \<open>undefined\<close>; the prototype of the argument plays no part.
\<close>

fun removeUndefined :: "jsval \<Rightarrow> jsval" where
  "removeUndefined Null = Null"
| "removeUndefined Undefined = Undefined"
| "removeUndefined (Array xs) = Array (map removeUndefined xs)"
| "removeUndefined (Object proto kvs) =
     fold (\<lambda>(key, val) cleaned.
             if val \<noteq> Undefined then assign cleaned key (removeUndefined val)
             else cleaned) kvs (Object None [])"
| "removeUndefined obj = obj"

text \<open>
  \<open>docRef.set(data)\<close>: the client refuses a value that holds \<open>undefined\<close> before
  anything is sent (the reason \<open>removeUndefined\<close> exists); otherwise one request, which
  overwrites the document of that id or adds it. The collection records the value as
  it was handed over; a query reads its fields only and returns plain data. (What else
  the client refuses is not modelled.)
\<close>

definition doc_set :: "string \<Rightarrow> string \<Rightarrow> jsval \<Rightarrow> unit io" where
  "doc_set collection docId data w =
     (if contains_undefined data
      then (Inl (Error ''Cannot use undefined as a Firestore value''), w)
      else (let w' = w\<lparr>network := network w @ [FirestoreSet collection docId]\<rparr>
            in if \<not> firestore_available w then (Inl (TransportError ''firestore unavailable''), w')
               else (Inr (), w'\<lparr>collections :=
                            (collections w)(collection := upsert (collections w collection) docId data)\<rparr>)))"

definition writeEdition :: "CloudEdition \<Rightarrow> unit io" where
  "writeEdition edition =
     io_bind getCloudConfig (\<lambda>config.
       if dryRun config then io_return ()
       else (let cleanedEdition = removeUndefined (js_of_edition edition)
             in doc_set (firestoreCollection config) (edition_id edition) cleanedEdition))"

text \<open>
  The query \<open>where('date', '==', date).orderBy('timestamp', 'asc')\<close>. Firestore returns
  the documents whose \<open>date\<close> is the given string and that have a \<open>timestamp\<close> field
  (an ordering clause skips documents without the field), ordered by that field:
  by type first (null, booleans, \<open>NaN\<close>, numbers, strings, arrays, maps), then by value.
  Documents the key does not tell apart stay in collection order. Each document comes
  back as plain data.
\<close>

fun order_key :: "jsval \<Rightarrow> nat \<times> int \<times> string" where
  "order_key Undefined = (0, 0, [])"
| "order_key Null = (0, 0, [])"
| "order_key (Boolean b) = (1, (if b then 1 else 0), [])"
| "order_key (Number NaN) = (2, 0, [])"
| "order_key (Number (Num n)) = (3, n, [])"
| "order_key (String s) = (4, 0, s)"
| "order_key (Array xs) = (5, 0, [])"
| "order_key (Object p kvs) = (6, 0, [])"

definition query_by_date :: "string \<Rightarrow> string \<Rightarrow> jsval list io" where
  "query_by_date collection date' w =
     (let w' = w\<lparr>network := network w @ [FirestoreQuery collection date']\<rparr>
      in if \<not> firestore_available w then (Inl (TransportError ''firestore unavailable''), w')
         else (Inr (map plain
                      (sort_key (\<lambda>d. order_key (get_prop d ''timestamp''))
                         (filter (\<lambda>d. get_prop d ''date'' = String date' \<and> has_prop d ''timestamp'')
                            (map snd (collections w collection))))), w'))"

definition getEditionsByDate :: "string \<Rightarrow> jsval list io" where
  "getEditionsByDate date' =
     io_bind getCloudConfig (\<lambda>config.
       if dryRun config then io_return []
       else io_bind (query_by_date (firestoreCollection config) date') (\<lambda>snapshot.
              if snapshot = [] then io_return []
              else io_return (fold (\<lambda>doc editions. editions @ [doc]) snapshot [])))"

text \<open>\<open>collection.limit(1).get()\<close>: one request; a failure is caught.\<close>

definition limit_get :: "string \<Rightarrow> unit io" where
  "limit_get collection w =
     (let w' = w\<lparr>network := network w @ [FirestoreLimitGet collection]\<rparr>
      in if \<not> firestore_available w then (Inl (TransportError ''firestore unavailable''), w')
         else (Inr (), w'))"

definition checkDatabaseAccess :: "bool io" where
  "checkDatabaseAccess =
     io_bind getCloudConfig (\<lambda>config.
       if dryRun config then io_return True
       else (\<lambda>w. case limit_get (firestoreCollection config) w of
                    (Inl e, w') \<Rightarrow> (Inr False, w')
                  | (Inr _, w') \<Rightarrow> (Inr True, w')))"

section \<open>The producer (producer.ts)\<close>

record ProducerInput =
  date :: string
  post_type :: post_type
  emojis :: jsval
  essence :: jsval
  image_buffer :: buffer
  rss_sources :: "string list"
  model :: string
  provider :: string

definition generateEditionId :: "string \<Rightarrow> post_type \<Rightarrow> int \<Rightarrow> string" where
  "generateEditionId date' postType sequenceIndex =
     (if postType = Essence then date' @ ''-essence''
      else date' @ ''-normal-'' @ number_to_string sequenceIndex)"

definition produceEdition :: "ProducerInput \<Rightarrow> CloudEdition io" where
  "produceEdition input =
     io_bind getCloudConfig (\<lambda>config.
     io_bind new_Date_toISOString (\<lambda>timestamp.
     io_bind (getEditionsByDate (date input)) (\<lambda>todayEditions.
       let normalPostsToday =
             length (filter (\<lambda>e. get_prop e ''post_type'' = String ''normal'') todayEditions);
           sequenceIndex = (if post_type input = Normal then int normalPostsToday + 1 else 1);
           editionId = generateEditionId (date input) (post_type input) sequenceIndex
       in io_bind (uploadImage (image_buffer input) (date input) (post_type input)
                     (if post_type input = Normal then Some sequenceIndex else None))
            (\<lambda>uploadResult.
               let edition =
                     \<lparr> edition_id = editionId,
                       CloudEdition.date = date input,
                       timestamp = timestamp,
                       CloudEdition.post_type = post_type input,
                       CloudEdition.emojis =
                         (if post_type input = Normal then emojis input else Undefined),
                       CloudEdition.essence =
                         (if post_type input = Essence then essence input else Undefined),
                       assets =
                         \<lparr> image_url = url uploadResult,
                           image_path = path uploadResult,
                           expires_at = expiresAt uploadResult \<rparr>,
                       source_meta =
                         \<lparr> SourceMetadata.rss_sources = rss_sources input,
                           SourceMetadata.model = model input,
                           SourceMetadata.provider = provider input,
                           created_at = timestamp \<rparr> \<rparr>
               in io_bind (writeEdition edition) (\<lambda>_. io_return edition)))))"

definition healthCheck :: "bool io" where
  "healthCheck =
     io_bind checkBucketAccess (\<lambda>bucketOk.
     io_bind checkDatabaseAccess (\<lambda>databaseOk.
       let healthy = (bucketOk \<and> databaseOk) in io_return healthy))"

section \<open>Notions the properties are stated with\<close>

text \<open>
  What the specification says the stripping does, in its own words: the fields whose
  value is absent are removed from every object, arrays and nested objects are
  processed recursively, and scalars pass through unchanged.
\<close>

fun strip_absent_fields :: "jsval \<Rightarrow> jsval" where
  "strip_absent_fields (Array xs) = Array (map strip_absent_fields xs)"
| "strip_absent_fields (Object p kvs) =
     Object p (map (\<lambda>kv. (fst kv, strip_absent_fields (snd kv)))
               (filter (\<lambda>kv. snd kv \<noteq> Undefined) kvs))"
| "strip_absent_fields v = v"

text \<open>Some object, at some depth, has a field whose value is \<open>undefined\<close>.\<close>

fun has_undefined_field :: "jsval \<Rightarrow> bool" where
  "has_undefined_field (Array xs) = list_ex has_undefined_field xs"
| "has_undefined_field (Object p kvs) =
     list_ex (\<lambda>kv. snd kv = Undefined \<or> has_undefined_field (snd kv)) kvs"
| "has_undefined_field v = False"

text \<open>
  Values as object literals and \<open>JSON.parse\<close> of ordinary input build them: every
  object has the default prototype, and no object has an own property named
  \<open>__proto__\<close>.
\<close>

fun default_prototypes :: "jsval \<Rightarrow> bool" where
  "default_prototypes (Array xs) = list_all default_prototypes xs"
| "default_prototypes (Object p kvs) =
     (p = None \<and> list_all (\<lambda>kv. default_prototypes (snd kv)) kvs)"
| "default_prototypes v = True"

fun no_proto_key :: "jsval \<Rightarrow> bool" where
  "no_proto_key (Array xs) = list_all no_proto_key xs"
| "no_proto_key (Object p kvs) =
     (''__proto__'' \<notin> set (map fst kvs) \<and> list_all (\<lambda>kv. no_proto_key (snd kv)) kvs)"
| "no_proto_key v = True"

text \<open>
  The number of normal editions recorded for a date: the documents of the collection
  whose \<open>date\<close> is that date, that carry a \<open>timestamp\<close> (every document
  \<open>writeEdition\<close> stores does) and whose \<open>post_type\<close> is \<open>'normal'\<close>.
\<close>

definition recorded_normal_count :: "string \<Rightarrow> (string \<times> jsval) list \<Rightarrow> nat" where
  "recorded_normal_count date' docs =
     length (filter (\<lambda>d. get_prop d ''date'' = String date' \<and> has_prop d ''timestamp''
                          \<and> get_prop d ''post_type'' = String ''normal'')
               (map snd docs))"

subsection \<open>Abbreviations for terms of the definitions above\<close>

text \<open>
  The step of the loop in \<open>removeUndefined\<close>, and its two effects taken apart: on the
  own properties and on the prototype.
\<close>

abbreviation (input) clean_step :: "string \<times> jsval \<Rightarrow> jsval \<Rightarrow> jsval" where
  "clean_step \<equiv> (\<lambda>(key, val) cleaned.
                    if val \<noteq> Undefined then assign cleaned key (removeUndefined val)
                    else cleaned)"

abbreviation (input) clean_entry ::
  "string \<times> jsval \<Rightarrow> (string \<times> jsval) list \<Rightarrow> (string \<times> jsval) list" where
  "clean_entry \<equiv> (\<lambda>(key, val) cleaned.
                     if val \<noteq> Undefined then upsert cleaned key (removeUndefined val)
                     else cleaned)"

abbreviation (input) proto_step :: "string \<times> jsval \<Rightarrow> jsval option \<Rightarrow> jsval option" where
  "proto_step \<equiv> (\<lambda>(key, val) p.
                    if key = ''__proto__'' \<and> val \<noteq> Undefined
                       \<and> is_object_or_null (removeUndefined val)
                    then Some (removeUndefined val) else p)"

abbreviation (input) ordinary_key :: "string \<times> jsval \<Rightarrow> bool" where
  "ordinary_key \<equiv> (\<lambda>kv. fst kv \<noteq> ''__proto__'')"

text \<open>
  The retention period in milliseconds, the expiration text for a clock reading, and the
  storage path, each as \<open>uploadImage\<close> computes it.
\<close>

abbreviation (input) retention_ms :: "CloudConfig \<Rightarrow> number" where
  "retention_ms c \<equiv>
     num_mul (num_mul (num_mul (num_mul (assetRetentionDays c) (Num 24)) (Num 60)) (Num 60)) (Num 1000)"

abbreviation (input) expiry_at :: "CloudConfig \<Rightarrow> int \<Rightarrow> error + string" where
  "expiry_at c now \<equiv> toISOString (TimeClip (num_add (Num now) (retention_ms c)))"

abbreviation (input) upload_path :: "string \<Rightarrow> post_type \<Rightarrow> int option \<Rightarrow> string" where
  "upload_path d t idx \<equiv>
     template_string (element (js_split (CHR ''-'') d) 0) @ ''/''
       @ template_string (element (js_split (CHR ''-'') d) 1) @ ''/''
       @ template_string (element (js_split (CHR ''-'') d) 2) @ ''/''
       @ (if t = Essence then ''essence.png'' else ''normal-'' @ template_number idx @ ''.png'')"

text \<open>The sequence index and the edition object, as \<open>produceEdition\<close> computes them.\<close>

abbreviation (input) sequence_index :: "ProducerInput \<Rightarrow> jsval list \<Rightarrow> int" where
  "sequence_index input docs \<equiv>
     (if post_type input = Normal
      then int (length (filter (\<lambda>e. get_prop e ''post_type'' = String ''normal'') docs)) + 1
      else 1)"

abbreviation (input) built_edition ::
  "ProducerInput \<Rightarrow> string \<Rightarrow> int \<Rightarrow> UploadResult \<Rightarrow> CloudEdition" where
  "built_edition input ts seq r \<equiv>
     \<lparr> edition_id = generateEditionId (date input) (post_type input) seq,
       CloudEdition.date = date input,
       timestamp = ts,
       CloudEdition.post_type = post_type input,
       CloudEdition.emojis = (if post_type input = Normal then emojis input else Undefined),
       CloudEdition.essence = (if post_type input = Essence then essence input else Undefined),
       assets = \<lparr> image_url = url r, image_path = path r, expires_at = expiresAt r \<rparr>,
       source_meta =
         \<lparr> SourceMetadata.rss_sources = rss_sources input,
           SourceMetadata.model = model input,
           SourceMetadata.provider = provider input,
           created_at = ts \<rparr> \<rparr>"

subsection \<open>Concrete states and requests\<close>

text \<open>
  A process started with \<open>CLOUD_DRY_RUN\<close> set and nothing else, on 2025-12-24 at
  midnight UTC with two seconds between clock readings; the default bucket exists and
  is empty, and the default collection holds the given documents.
\<close>

definition example_world :: "bool \<Rightarrow> (string \<times> jsval) list \<Rightarrow> world" where
  "example_world dry docs =
     \<lparr> env = [''CLOUD_DRY_RUN'' \<mapsto> (if dry then ''true'' else ''false'')],
       configInstance = None,
       clock = (\<lambda>n. 1766534400000 + 2000 * int n),
       ticks = 0,
       storage_available = True,
       buckets = [''today-in-emojis-assets'' \<mapsto> []],
       firestore_available = True,
       collections = (\<lambda>_. [])(''editions'' := docs),
       network = [] \<rparr>"

text \<open>A dry-run process with neither service reachable and no bucket at all.\<close>

definition unreachable_world :: world where
  "unreachable_world =
     \<lparr> env = [''CLOUD_DRY_RUN'' \<mapsto> ''true''],
       configInstance = None,
       clock = (\<lambda>n. 1766534400000),
       ticks = 0,
       storage_available = False,
       buckets = (\<lambda>_. None),
       firestore_available = False,
       collections = (\<lambda>_. []),
       network = [] \<rparr>"

definition example_stored_normal :: "string \<times> jsval" where
  "example_stored_normal =
     (''2025-12-24-normal-1'',
      Object None [(''edition_id'', String ''2025-12-24-normal-1''),
              (''date'', String ''2025-12-24''),
              (''timestamp'', String ''2025-12-23T22:00:00.000Z''),
              (''post_type'', String ''normal'')])"

definition example_normal_input :: ProducerInput where
  "example_normal_input =
     \<lparr> date = ''2025-12-24'', post_type = Normal,
       emojis = Array [Object None [(''char'', String ''*''), (''label'', String ''storm'')]],
       essence = Undefined,
       image_buffer = [137, 80, 78, 71],
       rss_sources = [''https://feeds.bbci.co.uk/news/rss.xml''],
       model = ''gpt-4o-mini'', provider = ''openai'' \<rparr>"

definition example_essence_input :: ProducerInput where
  "example_essence_input =
     \<lparr> date = ''2025-12-24'', post_type = Essence,
       emojis = Undefined,
       essence = Object None [(''emotion_label'', String ''hope''), (''fallback'', Boolean False)],
       image_buffer = [137, 80, 78, 71],
       rss_sources = [''https://feeds.bbci.co.uk/news/rss.xml''],
       model = ''gpt-4o-mini'', provider = ''openai'' \<rparr>"

definition example_nested_value :: jsval where
  "example_nested_value =
     Object None
       [(''a'', Undefined),
        (''b'', Array [Object None [(''c'', Undefined), (''d'', Null)], Number (Num 1)]),
        (''e'', Object None [(''f'', Undefined)])]"

text \<open>
  The value of \<open>JSON.parse('{"emotion_label": "hope", "__proto__": {"x": 1}}')\<close>, as an
  essence payload can arrive from the request file.
\<close>

definition example_proto_value :: jsval where
  "example_proto_value =
     Object None
       [(''emotion_label'', String ''hope''),
        (''__proto__'', Object None [(''x'', Number (Num 1))])]"

text \<open>A dry-run process whose retention setting is out of bounds.\<close>

definition invalid_dry_world :: world where
  "invalid_dry_world =
     \<lparr> env = [''CLOUD_DRY_RUN'' \<mapsto> ''true'', ''ASSET_RETENTION_DAYS'' \<mapsto> ''0''],
       configInstance = None,
       clock = (\<lambda>n. 1766534400000),
       ticks = 0,
       storage_available = True,
       buckets = [''today-in-emojis-assets'' \<mapsto> []],
       firestore_available = True,
       collections = (\<lambda>_. []),
       network = [] \<rparr>"

section \<open>Properties of the stripping function\<close>

lemma upsert_fresh: "k \<notin> fst ` set ps \<Longrightarrow> upsert ps k v = ps @ [(k, v)]"
  by (induction ps) auto

lemma upsert_keys: "fst ` set (upsert ps k v) = insert k (fst ` set ps)"
  by (induction ps) (auto split: if_splits simp: rev_image_eqI)

lemma upsert_distinct: "distinct (map fst ps) \<Longrightarrow> distinct (map fst (upsert ps k v))"
  by (induction ps) (auto simp: upsert_keys)

lemma upsert_entries: "set (upsert ps k v) \<subseteq> insert (k, v) (set ps)"
  by (induction ps) (auto split: if_splits)

lemma upsert_values: "snd ` set (upsert ps k v) \<subseteq> insert v (snd ` set ps)"
  using upsert_entries [of ps k v] by force

text \<open>
  The loop taken apart: the own properties of the result come from the properties not
  named \<open>__proto__\<close>, the prototype from the one that is.
\<close>

lemma fold_clean_step:
  "fold clean_step kvs (Object p acc) =
     Object (fold proto_step kvs p) (fold clean_entry (filter ordinary_key kvs) acc)"
proof (induction kvs arbitrary: p acc)
  case Nil
  then show ?case by simp
next
  case (Cons kv kvs)
  obtain k v where kv: "kv = (k, v)" by (cases kv)
  with Cons show ?case by simp
qed

lemma removeUndefined_Object:
  "removeUndefined (Object q kvs) =
     Object (fold proto_step kvs None) (fold clean_entry (filter ordinary_key kvs) [])"
  by (simp add: fold_clean_step)

lemma removeUndefined_eq_Undefined [simp]: "removeUndefined v = Undefined \<longleftrightarrow> v = Undefined"
  by (cases v) (auto simp: fold_clean_step)

lemma filter_ordinary: "''__proto__'' \<notin> fst ` set kvs \<Longrightarrow> filter ordinary_key kvs = kvs"
  by (induction kvs) auto

text \<open>On pairwise different property names the loop on the properties is a filter followed by a map.\<close>

lemma fold_clean_distinct:
  "distinct (map fst acc @ map fst kvs) \<Longrightarrow>
   fold clean_entry kvs acc =
     acc @ map (\<lambda>kv. (fst kv, removeUndefined (snd kv)))
             (filter (\<lambda>kv. snd kv \<noteq> Undefined) kvs)"
proof (induction kvs arbitrary: acc)
  case Nil
  then show ?case by simp
next
  case (Cons kv kvs)
  obtain k v where kv: "kv = (k, v)" by (cases kv)
  show ?case
  proof (cases "v = Undefined")
    case True
    with Cons kv show ?thesis by simp
  next
    case False
    from Cons.prems kv have fresh: "k \<notin> fst ` set acc" by auto
    from Cons.prems kv have "distinct (map fst (acc @ [(k, removeUndefined v)]) @ map fst kvs)"
      by auto
    from Cons.IH [OF this] False kv fresh show ?thesis
      by (simp add: upsert_fresh)
  qed
qed

text \<open>Whatever the property names, the loop keeps them distinct and stores only cleaned values.\<close>

lemma fold_clean_invariant:
  assumes "distinct (map fst acc)" and "\<forall>x \<in> snd ` set acc. Q x"
    and "\<forall>x \<in> snd ` set kvs. x \<noteq> Undefined \<longrightarrow> Q (removeUndefined x)"
  shows "distinct (map fst (fold clean_entry kvs acc)) \<and>
         (\<forall>x \<in> snd ` set (fold clean_entry kvs acc). Q x)"
  using assms
proof (induction kvs arbitrary: acc)
  case Nil
  then show ?case by simp
next
  case (Cons kv kvs)
  obtain k v where kv: "kv = (k, v)" by (cases kv)
  show ?case
  proof (cases "v = Undefined")
    case True
    with Cons kv show ?thesis by simp
  next
    case False
    let ?acc' = "upsert acc k (removeUndefined v)"
    have d: "distinct (map fst ?acc')" using Cons.prems(1) by (rule upsert_distinct)
    have q: "\<forall>x \<in> snd ` set ?acc'. Q x"
    proof
      fix x assume "x \<in> snd ` set ?acc'"
      with upsert_values [of acc k "removeUndefined v"]
      have "x = removeUndefined v \<or> x \<in> snd ` set acc" by auto
      with Cons.prems(2,3) kv False show "Q x" by auto
    qed
    have r: "\<forall>x \<in> snd ` set kvs. x \<noteq> Undefined \<longrightarrow> Q (removeUndefined x)"
      using Cons.prems(3) by simp
    from Cons.IH [OF d q r] kv False show ?thesis by simp
  qed
qed

lemma fold_clean_keys: "fst ` set (fold clean_entry kvs acc) \<subseteq> fst ` set acc \<union> fst ` set kvs"
proof (induction kvs arbitrary: acc)
  case Nil
  then show ?case by simp
next
  case (Cons kv kvs)
  obtain k v where kv: "kv = (k, v)" by (cases kv)
  from Cons [of "clean_entry kv acc"] kv show ?case
    by (auto simp: upsert_keys split: if_splits)
qed

lemma fold_proto_none: "''__proto__'' \<notin> fst ` set kvs \<Longrightarrow> fold proto_step kvs p = p"
  by (induction kvs arbitrary: p) auto

text \<open>
  Where no object has an own property named \<open>__proto__\<close>, every prototype is the
  default one and property names are pairwise different, \<open>removeUndefined\<close> is the
  stripping the specification describes.
\<close>

lemma removeUndefined_strip:
  assumes "unique_keys v" and "no_proto_key v" and "default_prototypes v"
  shows "removeUndefined v = strip_absent_fields v"
  using assms
proof (induction v rule: strip_absent_fields.induct)
  case (1 xs)
  then show ?case by (simp add: list_all_iff)
next
  case (2 p kvs)
  from "2.prems" have np: "''__proto__'' \<notin> fst ` set kvs" and p: "p = None" by simp_all
  from np have o: "filter ordinary_key kvs = kvs" by (rule filter_ordinary)
  from "2.prems" have d: "distinct (map fst [] @ map fst kvs)" by simp
  have "map (\<lambda>kv. (fst kv, removeUndefined (snd kv))) (filter (\<lambda>kv. snd kv \<noteq> Undefined) kvs)
      = map (\<lambda>kv. (fst kv, strip_absent_fields (snd kv))) (filter (\<lambda>kv. snd kv \<noteq> Undefined) kvs)"
    using 2 by (auto simp: list_all_iff)
  with fold_clean_distinct [OF d] p show ?case
    by (simp only: removeUndefined_Object o fold_proto_none [OF np] strip_absent_fields.simps)
       simp
qed simp_all

text \<open>No object of the result, at any depth of its own properties, has an \<open>undefined\<close> field.\<close>

lemma removeUndefined_no_undefined_field: "\<not> has_undefined_field (removeUndefined v)"
proof (induction v rule: removeUndefined.induct)
  case (3 xs)
  then show ?case by (simp add: list_ex_iff)
next
  case (4 proto kvs)
  let ?Q = "\<lambda>x. x \<noteq> Undefined \<and> \<not> has_undefined_field x"
  have "\<forall>x \<in> snd ` set (filter ordinary_key kvs). x \<noteq> Undefined \<longrightarrow> ?Q (removeUndefined x)"
    using 4 by auto
  with fold_clean_invariant [of "[]" ?Q "filter ordinary_key kvs"]
  have "\<forall>x \<in> snd ` set (fold clean_entry (filter ordinary_key kvs) []). ?Q x" by simp
  then show ?case
    by (simp only: removeUndefined_Object has_undefined_field.simps) (auto simp: list_ex_iff)
qed simp_all

text \<open>
  Where no object has an own property named \<open>__proto__\<close>, stripping a stripped value
  changes nothing.
\<close>

lemma removeUndefined_idempotent_ordinary:
  "no_proto_key v \<Longrightarrow> removeUndefined (removeUndefined v) = removeUndefined v"
proof (induction v rule: removeUndefined.induct)
  case (3 xs)
  then show ?case by (simp add: list_all_iff)
next
  case (4 proto kvs)
  from "4.prems" have np: "''__proto__'' \<notin> fst ` set kvs" by simp
  from np have o: "filter ordinary_key kvs = kvs" by (rule filter_ordinary)
  let ?Q = "\<lambda>x. x \<noteq> Undefined \<and> removeUndefined x = x"
  let ?r = "fold clean_entry kvs []"
  have first: "removeUndefined (Object proto kvs) = Object None ?r"
    by (simp only: removeUndefined_Object o fold_proto_none [OF np])
  have "\<forall>x \<in> snd ` set kvs. x \<noteq> Undefined \<longrightarrow> ?Q (removeUndefined x)"
    using 4 by (auto simp: list_all_iff)
  with fold_clean_invariant [of "[]" ?Q kvs]
  have d: "distinct (map fst ?r)" and q: "\<forall>x \<in> snd ` set ?r. ?Q x" by simp_all
  from fold_clean_keys [of kvs "[]"] np have npr: "''__proto__'' \<notin> fst ` set ?r" by auto
  then have o': "filter ordinary_key ?r = ?r" by (rule filter_ordinary)
  from q have f: "filter (\<lambda>kv. snd kv \<noteq> Undefined) ?r = ?r"
    by (auto intro: filter_True)
  from q have m: "map (\<lambda>kv. (fst kv, removeUndefined (snd kv))) ?r = ?r"
    by (intro map_idI) auto
  from d have "distinct (map fst [] @ map fst ?r)" by simp
  from fold_clean_distinct [OF this] f m have "fold clean_entry ?r [] = ?r" by simp
  then have "removeUndefined (Object None ?r) = Object None ?r"
    by (simp only: removeUndefined_Object o' fold_proto_none [OF npr])
  with first show ?case by simp
qed simp_all

text \<open>The specification's stripping leaves a value without absent fields as it is.\<close>

lemma strip_absent_fields_unchanged:
  "\<not> has_undefined_field v \<Longrightarrow> strip_absent_fields v = v"
proof (induction v rule: strip_absent_fields.induct)
  case (1 xs)
  then show ?case by (auto simp: list_ex_iff intro: map_idI)
next
  case (2 p kvs)
  then have f: "filter (\<lambda>kv. snd kv \<noteq> Undefined) kvs = kvs"
    by (auto simp: list_ex_iff intro: filter_True)
  from 2 have "map (\<lambda>kv. (fst kv, strip_absent_fields (snd kv))) kvs = kvs"
    by (auto simp: list_ex_iff intro!: map_idI)
  with f show ?case by simp
qed simp_all

text \<open>A nested value with absent fields at three depths.\<close>

lemma removeUndefined_example:
  "unique_keys example_nested_value \<and> no_proto_key example_nested_value
   \<and> default_prototypes example_nested_value
   \<and> removeUndefined example_nested_value =
       Object None [(''b'', Array [Object None [(''d'', Null)], Number (Num 1)]),
                    (''e'', Object None [])]"
  by (simp add: example_nested_value_def)

text \<open>
  Claim C6 fails on the code. A payload with an own property named \<open>__proto__\<close>
  holds no \<open>undefined\<close> at all, yet does not pass through unchanged: the property is
  gone and the prototype of the result is replaced by its value. And an \<open>undefined\<close>
  leaf inside an array is still there after the stripping.
\<close>

theorem removeUndefined_not_as_claimed:
  "\<not> contains_undefined example_proto_value
   \<and> removeUndefined example_proto_value
       = Object (Some (Object None [(''x'', Number (Num 1))])) [(''emotion_label'', String ''hope'')]
   \<and> removeUndefined example_proto_value \<noteq> example_proto_value
   \<and> removeUndefined (Array [Undefined, String ''x'']) = Array [Undefined, String ''x'']"
  by (simp add: example_proto_value_def)

text \<open>
  Claim C7 fails on the code. On the same payload a second stripping changes the
  result of the first: the first returns an object with a replaced prototype, the
  second an object with the default prototype.
\<close>

theorem removeUndefined_not_idempotent:
  "removeUndefined example_proto_value
     = Object (Some (Object None [(''x'', Number (Num 1))])) [(''emotion_label'', String ''hope'')]
   \<and> removeUndefined (removeUndefined example_proto_value)
       = Object None [(''emotion_label'', String ''hope'')]
   \<and> removeUndefined (removeUndefined example_proto_value) \<noteq> removeUndefined example_proto_value"
  by (simp add: example_proto_value_def)

section \<open>Validation of the configuration\<close>

text \<open>
  What \<open>validateConfig\<close> accepts: both comparisons with \<open>NaN\<close> are false, so
  \<open>NaN\<close> passes the bounds check.
\<close>

lemma validateConfig_Inr_iff:
  "validateConfig c = Inr () \<longleftrightarrow>
     projectId c \<noteq> [] \<and> storageBucket c \<noteq> []
     \<and> (case assetRetentionDays c of NaN \<Rightarrow> True | Num n \<Rightarrow> 1 \<le> n \<and> n \<le> 365)"
  by (cases "assetRetentionDays c") (auto simp: validateConfig_def)

text \<open>
  Claim C5 fails on the code. A non-numeric \<open>ASSET_RETENTION_DAYS\<close> is loaded as
  \<open>NaN\<close>, which is not a number in \<open>[1, 365]\<close>, and \<open>validateConfig\<close> does
  not throw on it.
\<close>

theorem validateConfig_accepts_NaN:
  "assetRetentionDays (loadCloudConfig [''ASSET_RETENTION_DAYS'' \<mapsto> ''abc'']) = NaN
   \<and> validateConfig (loadCloudConfig [''ASSET_RETENTION_DAYS'' \<mapsto> ''abc'']) = Inr ()"
  by (simp add: validateConfig_def loadCloudConfig_def env_or_def parseInt_def
        is_js_whitespace_def is_digit_def)

section \<open>The operations, one step at a time\<close>

lemma io_bind_Inr:
  "io_bind m f w = (Inr y, w') \<Longrightarrow> \<exists>x w1. m w = (Inr x, w1) \<and> f x w1 = (Inr y, w')"
  by (auto simp: io_bind_def split: prod.splits sum.splits)

lemma getCloudConfig_cached: "configInstance w = Some c \<Longrightarrow> getCloudConfig w = (Inr c, w)"
  by (simp add: getCloudConfig_def)

lemma getCloudConfig_Inr:
  assumes "getCloudConfig w = (Inr c, w1)"
  shows "w1 = w\<lparr>configInstance := Some c\<rparr>"
  using assms
  by (cases "configInstance w")
     (auto simp: getCloudConfig_def Let_def split: sum.splits)

lemma getCloudConfig_again:
  "getCloudConfig w = (Inr c, w1) \<Longrightarrow> getCloudConfig w1 = (Inr c, w1)"
  by (drule getCloudConfig_Inr) (simp add: getCloudConfig_cached)

lemma io_bind_config_again:
  assumes "getCloudConfig w = (Inr c, w1)"
  shows "io_bind getCloudConfig f w = io_bind getCloudConfig f w1"
  unfolding io_bind_def assms getCloudConfig_again [OF assms] by simp

lemma fold_snoc: "fold (\<lambda>doc editions. editions @ [doc]) xs acc = acc @ xs"
  by (induction xs arbitrary: acc) simp_all

lemma new_Date_toISOString_eq:
  "new_Date_toISOString w =
     (toISOString (TimeClip (Num (clock w (ticks w)))), w\<lparr>ticks := Suc (ticks w)\<rparr>)"
  by (simp add: new_Date_toISOString_def io_bind_def Date_now_def io_lift_def)

lemma getEditionsByDate_dry:
  "configInstance w = Some c \<Longrightarrow> dryRun c \<Longrightarrow> getEditionsByDate d w = (Inr [], w)"
  by (simp add: getEditionsByDate_def io_bind_def getCloudConfig_cached io_return_def)

lemma getEditionsByDate_live:
  assumes "configInstance w = Some c" and "\<not> dryRun c"
    and "getEditionsByDate d w = (Inr docs, w')"
  shows "docs = map plain
                  (sort_key (\<lambda>x. order_key (get_prop x ''timestamp''))
                     (filter (\<lambda>x. get_prop x ''date'' = String d \<and> has_prop x ''timestamp'')
                        (map snd (collections w (firestoreCollection c)))))"
    and "w' = w\<lparr>network := network w @ [FirestoreQuery (firestoreCollection c) d]\<rparr>"
  using assms
  by (auto simp: getEditionsByDate_def io_bind_def getCloudConfig_cached io_return_def
        query_by_date_def Let_def fold_snoc split: if_splits)

lemma uploadImage_dry:
  assumes "configInstance w = Some c" and "dryRun c"
  shows "uploadImage buf d t idx w =
     (map_sum id (\<lambda>e. \<lparr> url = ''https://storage.googleapis.com/'' @ storageBucket c @ ''/''
                            @ upload_path d t idx,
                         path = upload_path d t idx, expiresAt = e \<rparr>)
        (expiry_at c (clock w (ticks w))),
      w\<lparr>ticks := Suc (ticks w)\<rparr>)"
  using assms
  by (cases "expiry_at c (clock w (ticks w))")
     (simp_all add: uploadImage_def io_bind_def getCloudConfig_cached Let_def Date_now_def
        io_lift_def io_return_def)

lemma uploadImage_live:
  assumes "configInstance w = Some c" and "\<not> dryRun c"
    and "uploadImage buf d t idx w = (Inr r, w')"
  shows "path r = upload_path d t idx"
    and "url r = ''https://storage.googleapis.com/'' @ storageBucket c @ ''/'' @ upload_path d t idx"
    and "expiry_at c (clock w (ticks w)) = Inr (expiresAt r)"
    and "\<exists>objs. w' = w\<lparr>network := network w @ [StorageSave (storageBucket c) (upload_path d t idx)],
                 buckets := (buckets w)(storageBucket c := Some objs),
                 ticks := Suc (ticks w)\<rparr>"
  using assms
  by (auto simp: uploadImage_def io_bind_def getCloudConfig_cached Let_def Date_now_def
        io_lift_def io_return_def file_save_def
      split: if_splits option.splits sum.splits)

lemma writeEdition_dry:
  "configInstance w = Some c \<Longrightarrow> dryRun c \<Longrightarrow> writeEdition e w = (Inr (), w)"
  by (simp add: writeEdition_def io_bind_def getCloudConfig_cached io_return_def)

lemma writeEdition_live:
  assumes "configInstance w = Some c" and "\<not> dryRun c"
    and "writeEdition e w = (Inr u, w')"
  shows "w' = w\<lparr>network := network w @ [FirestoreSet (firestoreCollection c) (edition_id e)],
               collections := (collections w)(firestoreCollection c :=
                  upsert (collections w (firestoreCollection c)) (edition_id e)
                    (removeUndefined (js_of_edition e)))\<rparr>"
  using assms
  by (auto simp: writeEdition_def io_bind_def getCloudConfig_cached Let_def doc_set_def
      split: if_splits)

lemma produceEdition_after_config:
  "getCloudConfig w = (Inr c, w1) \<Longrightarrow> produceEdition input w = produceEdition input w1"
  unfolding produceEdition_def by (rule io_bind_config_again)


lemma produceEdition_steps:
  assumes run: "produceEdition input w = (Inr edition, w')"
    and cfg: "configInstance w = Some c"
  shows "\<exists>ts docs r w2 w3.
           toISOString (TimeClip (Num (clock w (ticks w)))) = Inr ts
         \<and> getEditionsByDate (date input) (w\<lparr>ticks := Suc (ticks w)\<rparr>) = (Inr docs, w2)
         \<and> uploadImage (image_buffer input) (date input) (post_type input)
              (if post_type input = Normal then Some (sequence_index input docs) else None) w2
              = (Inr r, w3)
         \<and> writeEdition edition w3 = (Inr (), w')
         \<and> edition = built_edition input ts (sequence_index input docs) r"
proof -
  from run cfg
  have 1: "io_bind new_Date_toISOString (\<lambda>timestamp.
     io_bind (getEditionsByDate (date input)) (\<lambda>todayEditions.
       io_bind (uploadImage (image_buffer input) (date input) (post_type input)
                     (if post_type input = Normal then Some (sequence_index input todayEditions) else None))
            (\<lambda>uploadResult.
               io_bind (writeEdition (built_edition input timestamp (sequence_index input todayEditions) uploadResult))
                 (\<lambda>_. io_return (built_edition input timestamp (sequence_index input todayEditions) uploadResult))))) w
      = (Inr edition, w')"
    by (simp add: produceEdition_def io_bind_def [of getCloudConfig] getCloudConfig_cached Let_def)
  from io_bind_Inr [OF 1] obtain ts wa where
    a: "new_Date_toISOString w = (Inr ts, wa)" and
    2: "io_bind (getEditionsByDate (date input)) (\<lambda>todayEditions.
       io_bind (uploadImage (image_buffer input) (date input) (post_type input)
                     (if post_type input = Normal then Some (sequence_index input todayEditions) else None))
            (\<lambda>uploadResult.
               io_bind (writeEdition (built_edition input ts (sequence_index input todayEditions) uploadResult))
                 (\<lambda>_. io_return (built_edition input ts (sequence_index input todayEditions) uploadResult)))) wa
      = (Inr edition, w')"
    by blast
  from a have ts: "toISOString (TimeClip (Num (clock w (ticks w)))) = Inr ts"
    and wa: "wa = w\<lparr>ticks := Suc (ticks w)\<rparr>"
    by (simp_all add: new_Date_toISOString_eq)
  from io_bind_Inr [OF 2] obtain docs w2 where
    b: "getEditionsByDate (date input) wa = (Inr docs, w2)" and
    3: "io_bind (uploadImage (image_buffer input) (date input) (post_type input)
                     (if post_type input = Normal then Some (sequence_index input docs) else None))
            (\<lambda>uploadResult.
               io_bind (writeEdition (built_edition input ts (sequence_index input docs) uploadResult))
                 (\<lambda>_. io_return (built_edition input ts (sequence_index input docs) uploadResult))) w2
      = (Inr edition, w')"
    by blast
  from io_bind_Inr [OF 3] obtain r w3 where
    u: "uploadImage (image_buffer input) (date input) (post_type input)
          (if post_type input = Normal then Some (sequence_index input docs) else None) w2 = (Inr r, w3)" and
    4: "io_bind (writeEdition (built_edition input ts (sequence_index input docs) r))
                 (\<lambda>_. io_return (built_edition input ts (sequence_index input docs) r)) w3
      = (Inr edition, w')"
    by blast
  from io_bind_Inr [OF 4] obtain x w4 where
    wr: "writeEdition (built_edition input ts (sequence_index input docs) r) w3 = (Inr x, w4)" and
    5: "io_return (built_edition input ts (sequence_index input docs) r) w4 = (Inr edition, w')"
    by blast
  from 5 have e: "edition = built_edition input ts (sequence_index input docs) r" and "w4 = w'"
    by (simp_all add: io_return_def)
  with wr have "writeEdition edition w3 = (Inr (), w')" by simp
  with ts b wa u e show ?thesis by blast
qed

text \<open>Plain data has the string fields the stored document has.\<close>

lemma plain_eq_String [simp]: "plain v = String s \<longleftrightarrow> v = String s"
  by (cases v) auto

lemma get_prop_plain_String [simp]:
  "get_prop (plain d) name = String s \<longleftrightarrow> get_prop d name = String s"
proof (cases d)
  case (Object p kvs)
  have "map_of (map (\<lambda>kv. (fst kv, plain (snd kv))) kvs) name = map_option plain (map_of kvs name)"
    by (induction kvs) auto
  with Object show ?thesis by (cases "map_of kvs name") auto
qed auto

lemma count_after_query:
  "length (filter (\<lambda>e. get_prop e name = String s) (map plain (sort_key f (filter Q xs))))
     = length (filter (\<lambda>x. Q x \<and> get_prop x name = String s) xs)"
  by (simp add: filter_map comp_def filter_sort)

lemma produceEdition_cached_config:
  assumes "produceEdition input w = (Inr edition, w')" and "getCloudConfig w = (Inr c, w1)"
  shows "produceEdition input w1 = (Inr edition, w')" and "configInstance w1 = Some c"
    and "clock w1 = clock w" and "ticks w1 = ticks w" and "collections w1 = collections w"
    and "network w1 = network w" and "buckets w1 = buckets w"
  using assms produceEdition_after_config [OF assms(2), of input] getCloudConfig_Inr [OF assms(2)]
  by simp_all



lemma map_of_upsert: "map_of (upsert ps k v) k = Some v"
  by (induction ps) auto

lemma has_prop_stored_emojis:
  "has_prop (removeUndefined (js_of_edition e)) ''emojis'' \<longleftrightarrow> CloudEdition.emojis e \<noteq> Undefined"
  by (simp add: js_of_edition_def)

lemma has_prop_stored_essence:
  "has_prop (removeUndefined (js_of_edition e)) ''essence'' \<longleftrightarrow> CloudEdition.essence e \<noteq> Undefined"
  by (simp add: js_of_edition_def)

text \<open>
  Claim C9. When the request carries the content field that matches its post type, the
  edition returned has \<open>emojis\<close> exactly for a normal post and \<open>essence\<close> exactly
  for an essence post; so has the document written for it (the edition with its
  \<open>undefined\<close> fields stripped), which, dry-run off, is the document stored under the
  edition's identifier.
\<close>

theorem produceEdition_content_fields:
  assumes run: "produceEdition input w = (Inr edition, w')"
    and cfg: "getCloudConfig w = (Inr config, w1)"
    and content: "(case post_type input of Normal \<Rightarrow> emojis input | Essence \<Rightarrow> essence input)
                    \<noteq> Undefined"
  shows "(CloudEdition.emojis edition \<noteq> Undefined \<longleftrightarrow> post_type input = Normal)
       \<and> (CloudEdition.essence edition \<noteq> Undefined \<longleftrightarrow> post_type input = Essence)
       \<and> (has_prop (removeUndefined (js_of_edition edition)) ''emojis'' \<longleftrightarrow> post_type input = Normal)
       \<and> (has_prop (removeUndefined (js_of_edition edition)) ''essence'' \<longleftrightarrow> post_type input = Essence)
       \<and> (\<not> dryRun config \<longrightarrow>
            map_of (collections w' (firestoreCollection config)) (edition_id edition)
              = Some (removeUndefined (js_of_edition edition)))"
proof -
  note c = produceEdition_cached_config [OF run cfg]
  from produceEdition_steps [OF c(1,2)] obtain ts docs r w2 w3 where
    q: "getEditionsByDate (date input) (w1\<lparr>ticks := Suc (ticks w1)\<rparr>) = (Inr docs, w2)" and
    u: "uploadImage (image_buffer input) (date input) (post_type input)
          (if post_type input = Normal then Some (sequence_index input docs) else None) w2
          = (Inr r, w3)" and
    wr: "writeEdition edition w3 = (Inr (), w')" and
    e: "edition = built_edition input ts (sequence_index input docs) r"
    by blast
  from e content have
    em: "CloudEdition.emojis edition \<noteq> Undefined \<longleftrightarrow> post_type input = Normal" and
    es: "CloudEdition.essence edition \<noteq> Undefined \<longleftrightarrow> post_type input = Essence"
    by (cases "post_type input"; simp)+
  have stored: "map_of (collections w' (firestoreCollection config)) (edition_id edition)
                  = Some (removeUndefined (js_of_edition edition))" if live: "\<not> dryRun config"
  proof -
    have c1: "configInstance (w1\<lparr>ticks := Suc (ticks w1)\<rparr>) = Some config"
      using c(2) by simp
    from getEditionsByDate_live(2) [OF c1 live q] c(2)
    have c2: "configInstance w2 = Some config" by simp
    from uploadImage_live(4) [OF c2 live u] c2
    have c3: "configInstance w3 = Some config" by auto
    from writeEdition_live [OF c3 live wr] show ?thesis
      by (simp add: map_of_upsert)
  qed
  from em es stored show ?thesis
    by (simp add: has_prop_stored_emojis has_prop_stored_essence)
qed

lemma js_split_not_Nil: "js_split sep s \<noteq> []"
  by (induction s) (auto split: list.splits)







section \<open>Dry run against a run with dry-run off\<close>

lemma produceEdition_dry:
  assumes c: "configInstance w = Some c" and dry: "dryRun c"
    and ts: "toISOString (TimeClip (Num (clock w (ticks w)))) = Inr ts"
    and ex: "expiry_at c (clock w (Suc (ticks w))) = Inr ex"
  shows "produceEdition input w =
     (Inr (built_edition input ts 1
        \<lparr> url = ''https://storage.googleapis.com/'' @ storageBucket c @ ''/''
                  @ upload_path (date input) (post_type input)
                      (if post_type input = Normal then Some 1 else None),
          path = upload_path (date input) (post_type input)
                   (if post_type input = Normal then Some 1 else None),
          expiresAt = ex \<rparr>),
      w\<lparr>ticks := Suc (Suc (ticks w))\<rparr>)"
proof -
  let ?wa = "w\<lparr>ticks := Suc (ticks w)\<rparr>"
  let ?wb = "w\<lparr>ticks := Suc (Suc (ticks w))\<rparr>"
  have ca: "configInstance ?wa = Some c" and cb: "configInstance ?wb = Some c"
    using c by simp_all
  have 1: "getCloudConfig w = (Inr c, w)" using c by (rule getCloudConfig_cached)
  have 2: "new_Date_toISOString w = (Inr ts, ?wa)"
    by (simp add: new_Date_toISOString_eq ts)
  have 3: "getEditionsByDate (date input) ?wa = (Inr [], ?wa)"
    using ca dry by (rule getEditionsByDate_dry)
  have 4: "uploadImage (image_buffer input) (date input) (post_type input)
             (if post_type input = Normal then Some 1 else None) ?wa =
           (Inr \<lparr> url = ''https://storage.googleapis.com/'' @ storageBucket c @ ''/''
                  @ upload_path (date input) (post_type input)
                      (if post_type input = Normal then Some 1 else None),
                  path = upload_path (date input) (post_type input)
                   (if post_type input = Normal then Some 1 else None),
                  expiresAt = ex \<rparr>, ?wb)"
    using ex by (simp add: uploadImage_dry [OF ca dry])
  have 5: "writeEdition e ?wb = (Inr (), ?wb)" for e
    using cb dry by (rule writeEdition_dry)
  show ?thesis
  proof (cases "post_type input")
    case Normal
    with 4 show ?thesis
      by (simp add: produceEdition_def io_bind_def 1 2 3 5 io_return_def Let_def)
  next
    case Essence
    with 4 show ?thesis
      by (simp add: produceEdition_def io_bind_def 1 2 3 5 io_return_def Let_def)
  qed
qed

lemma produceEdition_dry_frame:
  assumes c: "configInstance w = Some c" and dry: "dryRun c"
  shows "network (snd (produceEdition input w)) = network w
       \<and> buckets (snd (produceEdition input w)) = buckets w
       \<and> collections (snd (produceEdition input w)) = collections w"
proof -
  let ?wa = "w\<lparr>ticks := Suc (ticks w)\<rparr>"
  let ?wb = "w\<lparr>ticks := Suc (Suc (ticks w))\<rparr>"
  have ca: "configInstance ?wa = Some c" and cb: "configInstance ?wb = Some c"
    using c by simp_all
  have 1: "getCloudConfig w = (Inr c, w)" using c by (rule getCloudConfig_cached)
  have 3: "getEditionsByDate (date input) ?wa = (Inr [], ?wa)"
    using ca dry by (rule getEditionsByDate_dry)
  have 5: "writeEdition e ?wb = (Inr (), ?wb)" for e
    using cb dry by (rule writeEdition_dry)
  show ?thesis
  proof (cases "toISOString (TimeClip (Num (clock w (ticks w))))")
    case (Inl e)
    then show ?thesis
      by (simp add: produceEdition_def io_bind_def 1 new_Date_toISOString_eq)
  next
    case ts: (Inr ts)
    show ?thesis
    proof (cases "expiry_at c (clock w (Suc (ticks w)))")
      case (Inl e)
      then show ?thesis
        by (cases "post_type input")
           (simp_all add: produceEdition_def io_bind_def 1 new_Date_toISOString_eq ts 3
              uploadImage_dry [OF ca dry] Let_def)
    next
      case (Inr ex)
      from produceEdition_dry [OF c dry ts Inr] show ?thesis by simp
    qed
  qed
qed

text \<open>A dry run sends no request and changes neither store, whether it returns or throws.\<close>

lemma produceEdition_dry_no_requests:
  assumes cfg: "getCloudConfig w = (Inr c, w1)" and dry: "dryRun c"
  shows "network (snd (produceEdition input w)) = network w
       \<and> buckets (snd (produceEdition input w)) = buckets w
       \<and> collections (snd (produceEdition input w)) = collections w"
proof -
  have w1: "w1 = w\<lparr>configInstance := Some c\<rparr>"
    using cfg by (rule getCloudConfig_Inr)
  then have c: "configInstance w1 = Some c" by simp
  have "produceEdition input w = produceEdition input w1"
    using cfg by (rule produceEdition_after_config)
  with produceEdition_dry_frame [OF c dry, of input] w1 show ?thesis
    by simp
qed

text \<open>
  Claim C3, as amended. A dry run sends no request and leaves bucket and collection as
  they are. Compared with a run with dry-run off, on the same request, store, clock
  and retention period, that returns an edition: the dry run returns an edition too,
  with the same expiration; its identifier and path are the same when the request is
  an essence post or no normal edition is recorded for the date (a dry run does not
  query the store and numbers a normal post as the first of its day).
\<close>

theorem produceEdition_dry_run:
  assumes dcfg: "getCloudConfig wd = (Inr cd, wd1)" and dry: "dryRun cd"
    and lcfg: "getCloudConfig wl = (Inr cl, wl1)" and live: "\<not> dryRun cl"
    and retention: "assetRetentionDays cl = assetRetentionDays cd"
    and clock: "clock wl = clock wd" "ticks wl = ticks wd"
    and store: "collections wl = collections wd"
    and run: "produceEdition input wl = (Inr el, wl')"
  shows "network (snd (produceEdition input wd)) = network wd
       \<and> buckets (snd (produceEdition input wd)) = buckets wd
       \<and> collections (snd (produceEdition input wd)) = collections wd
       \<and> (\<exists>ed. fst (produceEdition input wd) = Inr ed
              \<and> expires_at (assets ed) = expires_at (assets el)
              \<and> (post_type input = Essence
                    \<or> recorded_normal_count (date input)
                         (collections wd (firestoreCollection cl)) = 0
                  \<longrightarrow> edition_id ed = edition_id el
                       \<and> image_path (assets ed) = image_path (assets el)))"
proof -
  have wd1: "wd1 = wd\<lparr>configInstance := Some cd\<rparr>"
    using dcfg by (rule getCloudConfig_Inr)
  then have cd: "configInstance wd1 = Some cd" by simp
  have same_run: "produceEdition input wd = produceEdition input wd1"
    using dcfg by (rule produceEdition_after_config)
  note frame = produceEdition_dry_no_requests [OF dcfg dry, of input]
  note c = produceEdition_cached_config [OF run lcfg]
  from produceEdition_steps [OF c(1,2)] obtain ts docs r w2 w3 where
    ts: "toISOString (TimeClip (Num (clock wl1 (ticks wl1)))) = Inr ts" and
    q: "getEditionsByDate (date input) (wl1\<lparr>ticks := Suc (ticks wl1)\<rparr>) = (Inr docs, w2)" and
    u: "uploadImage (image_buffer input) (date input) (post_type input)
          (if post_type input = Normal then Some (sequence_index input docs) else None) w2
          = (Inr r, w3)" and
    e: "el = built_edition input ts (sequence_index input docs) r"
    by blast
  have c1: "configInstance (wl1\<lparr>ticks := Suc (ticks wl1)\<rparr>) = Some cl"
    using c(2) by simp
  note g = getEditionsByDate_live [OF c1 live q]
  from g(2) c(2) have c2: "configInstance w2 = Some cl" by simp
  note up = uploadImage_live [OF c2 live u]
  from ts c(3,4) clock wd1
  have ts': "toISOString (TimeClip (Num (clock wd1 (ticks wd1)))) = Inr ts" by simp
  from up(3) g(2) c(3,4) clock wd1 retention
  have ex': "expiry_at cd (clock wd1 (Suc (ticks wd1))) = Inr (expiresAt r)" by simp
  note d = produceEdition_dry [OF cd dry ts' ex', of input]
  let ?ed = "built_edition input ts 1
        \<lparr> url = ''https://storage.googleapis.com/'' @ storageBucket cd @ ''/''
                  @ upload_path (date input) (post_type input)
                      (if post_type input = Normal then Some 1 else None),
          path = upload_path (date input) (post_type input)
                   (if post_type input = Normal then Some 1 else None),
          expiresAt = expiresAt r \<rparr>"
  from d have r1: "fst (produceEdition input wd) = Inr ?ed"
    by (simp add: same_run)
  from e have r2: "expires_at (assets ?ed) = expires_at (assets el)" by simp
  have r3: "edition_id ?ed = edition_id el \<and> image_path (assets ?ed) = image_path (assets el)"
    if h: "post_type input = Essence
           \<or> recorded_normal_count (date input) (collections wd (firestoreCollection cl)) = 0"
  proof (cases "post_type input")
    case Essence
    with e up(1) show ?thesis by (simp add: generateEditionId_def)
  next
    case Normal
    with h have "recorded_normal_count (date input) (collections wd (firestoreCollection cl)) = 0"
      by simp
    moreover from g(1)
    have "length (filter (\<lambda>e. get_prop e ''post_type'' = String ''normal'') docs)
          = length (filter (\<lambda>x. (get_prop x ''date'' = String (date input) \<and> has_prop x ''timestamp'')
                                  \<and> get_prop x ''post_type'' = String ''normal'')
                      (map snd (collections (wl1\<lparr>ticks := Suc (ticks wl1)\<rparr>)
                                  (firestoreCollection cl))))"
      by (simp only: count_after_query)
    ultimately
    have "length (filter (\<lambda>e. get_prop e ''post_type'' = String ''normal'') docs) = 0"
      using c(5) store by (simp add: recorded_normal_count_def conj_assoc)
    with e up(1) Normal show ?thesis by (simp add: generateEditionId_def)
  qed
  have "\<exists>ed. fst (produceEdition input wd) = Inr ed
              \<and> expires_at (assets ed) = expires_at (assets el)
              \<and> (post_type input = Essence
                    \<or> recorded_normal_count (date input)
                         (collections wd (firestoreCollection cl)) = 0
                  \<longrightarrow> edition_id ed = edition_id el
                       \<and> image_path (assets ed) = image_path (assets el))"
  proof (intro exI conjI impI)
    show "fst (produceEdition input wd) = Inr ?ed" by (rule r1)
    show "expires_at (assets ?ed) = expires_at (assets el)" by (rule r2)
    assume h: "post_type input = Essence
           \<or> recorded_normal_count (date input) (collections wd (firestoreCollection cl)) = 0"
    from r3 [OF h] show "edition_id ?ed = edition_id el" ..
    from r3 [OF h] show "image_path (assets ?ed) = image_path (assets el)" ..
  qed
  with frame show ?thesis by (simp only: simp_thms)
qed

section \<open>Creation instant and expiration\<close>

text \<open>
  For an integral retention period the expiration is the instant of the clock reading
  plus that many days, to the millisecond; the scenario of the specification (30 days
  from 2025-12-24T00:00:00.000Z) gives 2026-01-23T00:00:00.000Z.
\<close>

lemma expiry_at_exact:
  assumes "assetRetentionDays c = Num d" and "\<bar>now + d * 86400000\<bar> \<le> 8640000000000000"
  shows "expiry_at c now = toISOString (Num (now + d * 86400000))"
proof -
  have "((((d * 24) * 60) * 60) * 1000) = d * 86400000" by simp
  with assms show ?thesis by (simp add: TimeClip_def mult.commute)
qed

lemma expiry_thirty_days:
  "toISOString (Num 1766534400000) = Inr ''2025-12-24T00:00:00.000Z''"
  "toISOString (Num (1766534400000 + 30 * 86400000)) = Inr ''2026-01-23T00:00:00.000Z''"
  by code_simp+

lemma getEditionsByDate_frame:
  assumes "configInstance w = Some c" and "getEditionsByDate d w = (Inr docs, w')"
  shows "configInstance w' = Some c \<and> clock w' = clock w \<and> ticks w' = ticks w"
proof (cases "dryRun c")
  case True
  with assms getEditionsByDate_dry [OF assms(1) True, of d] show ?thesis by simp
next
  case False
  from getEditionsByDate_live(2) [OF assms(1) False assms(2)] assms(1) show ?thesis by simp
qed

lemma uploadImage_expiry:
  assumes c: "configInstance w = Some c" and run: "uploadImage buf d t idx w = (Inr r, w')"
  shows "expiry_at c (clock w (ticks w)) = Inr (expiresAt r)"
proof (cases "dryRun c")
  case True
  from run have "map_sum id (\<lambda>e. \<lparr> url = ''https://storage.googleapis.com/'' @ storageBucket c @ ''/''
                            @ upload_path d t idx,
                         path = upload_path d t idx, expiresAt = e \<rparr>)
        (expiry_at c (clock w (ticks w))) = Inr r"
    by (simp only: uploadImage_dry [OF c True] prod.inject)
  then show ?thesis
    by (cases "expiry_at c (clock w (ticks w))") auto
next
  case False
  from uploadImage_live(3) [OF c False run] show ?thesis .
qed

text \<open>
  What the code computes: the creation instant is the first clock reading of the run,
  the expiration is the second reading (taken in \<open>uploadImage\<close>, after the query
  and the upload) plus the retention period.
\<close>

lemma produceEdition_expiry:
  assumes run: "produceEdition input w = (Inr edition, w')"
    and cfg: "getCloudConfig w = (Inr c, w1)"
  shows "toISOString (TimeClip (Num (clock w (ticks w)))) = Inr (created_at (source_meta edition))"
    and "expiry_at c (clock w (Suc (ticks w))) = Inr (expires_at (assets edition))"
proof -
  note k = produceEdition_cached_config [OF run cfg]
  from produceEdition_steps [OF k(1,2)] obtain ts docs r w2 w3 where
    ts: "toISOString (TimeClip (Num (clock w1 (ticks w1)))) = Inr ts" and
    q: "getEditionsByDate (date input) (w1\<lparr>ticks := Suc (ticks w1)\<rparr>) = (Inr docs, w2)" and
    u: "uploadImage (image_buffer input) (date input) (post_type input)
          (if post_type input = Normal then Some (sequence_index input docs) else None) w2
          = (Inr r, w3)" and
    e: "edition = built_edition input ts (sequence_index input docs) r"
    by blast
  from ts e k(3,4)
  show "toISOString (TimeClip (Num (clock w (ticks w)))) = Inr (created_at (source_meta edition))"
    by simp
  have "configInstance (w1\<lparr>ticks := Suc (ticks w1)\<rparr>) = Some c" using k(2) by simp
  from getEditionsByDate_frame [OF this q]
  have f: "configInstance w2 = Some c" "clock w2 = clock w1" "ticks w2 = Suc (ticks w1)"
    by simp_all
  from uploadImage_expiry [OF f(1) u] f(2,3) e k(3,4)
  show "expiry_at c (clock w (Suc (ticks w))) = Inr (expires_at (assets edition))"
    by simp
qed

section \<open>The health check\<close>

lemma checkBucketAccess_dry:
  "getCloudConfig w = (Inr c, w1) \<Longrightarrow> dryRun c \<Longrightarrow> checkBucketAccess w = (Inr True, w1)"
  by (simp add: checkBucketAccess_def io_bind_def io_return_def)

lemma checkDatabaseAccess_dry:
  "getCloudConfig w = (Inr c, w1) \<Longrightarrow> dryRun c \<Longrightarrow> checkDatabaseAccess w = (Inr True, w1)"
  by (simp add: checkDatabaseAccess_def io_bind_def io_return_def)

text \<open>
  Claim C10, as amended. With the dry-run flag on and the configuration returned by
  \<open>getCloudConfig\<close> (validated, or already cached), both access checks answer
  \<open>true\<close> without a request, so the health check reports healthy and sends nothing,
  also where neither the bucket nor the database can be reached.
\<close>

theorem healthCheck_dry_run:
  assumes "getCloudConfig w = (Inr config, w')" and "dryRun config"
  shows "healthCheck w = (Inr True, w') \<and> network w' = network w
         \<and> buckets w' = buckets w \<and> collections w' = collections w"
proof -
  have b: "checkBucketAccess w = (Inr True, w')"
    using assms by (rule checkBucketAccess_dry)
  have d: "checkDatabaseAccess w' = (Inr True, w')"
    using getCloudConfig_again [OF assms(1)] assms(2) by (rule checkDatabaseAccess_dry)
  have "healthCheck w = (Inr True, w')"
    by (simp add: healthCheck_def io_bind_def b d io_return_def)
  moreover have "w' = w\<lparr>configInstance := Some config\<rparr>"
    using assms(1) by (rule getCloudConfig_Inr)
  ultimately show ?thesis by simp
qed

lemma unreachable_world_config: "getCloudConfig unreachable_world =
         (Inr (loadCloudConfig (env unreachable_world)),
          unreachable_world\<lparr>configInstance := Some (loadCloudConfig (env unreachable_world))\<rparr>)"
  by (simp add: getCloudConfig_def unreachable_world_def Let_def loadCloudConfig_def validateConfig_def env_or_def parseInt_def is_js_whitespace_def is_digit_def digit_value_def)

text \<open>
  When \<open>getCloudConfig\<close> throws, so does the health check: the configuration is
  read before the dry-run test and outside the \<open>try\<close>.
\<close>

lemma healthCheck_config_error:
  "getCloudConfig w = (Inl e, w1) \<Longrightarrow> healthCheck w = (Inl e, w1)"
  by (simp add: healthCheck_def checkBucketAccess_def io_bind_def)

text \<open>
  The health check of a dry-run process that can reach neither service.
\<close>

theorem healthCheck_dry_run_witness:
  "dryRun (loadCloudConfig (env unreachable_world))
   \<and> \<not> storage_available unreachable_world \<and> \<not> firestore_available unreachable_world
   \<and> buckets unreachable_world ''today-in-emojis-assets'' = None
   \<and> fst (healthCheck unreachable_world) = Inr True
   \<and> network (snd (healthCheck unreachable_world)) = []"
proof -
  have d: "dryRun (loadCloudConfig (env unreachable_world))"
    by (simp add: loadCloudConfig_def unreachable_world_def)
  from healthCheck_dry_run [OF unreachable_world_config d] d show ?thesis
    by (simp add: unreachable_world_def)
qed

section \<open>The properties at concrete states\<close>

lemma example_world_config:
  "getCloudConfig (example_world b docs) =
     (Inr (loadCloudConfig (env (example_world b docs))),
      (example_world b docs)\<lparr>configInstance := Some (loadCloudConfig (env (example_world b docs)))\<rparr>)"
  by (cases b)
     (simp_all add: getCloudConfig_def example_world_def Let_def loadCloudConfig_def
        validateConfig_def env_or_def parseInt_def is_js_whitespace_def is_digit_def
        digit_value_def)

lemma example_world_settings:
  "dryRun (loadCloudConfig (env (example_world b docs))) = b"
  "assetRetentionDays (loadCloudConfig (env (example_world b docs))) = Num 30"
  "firestoreCollection (loadCloudConfig (env (example_world b docs))) = ''editions''"
  by (cases b; simp add: example_world_def loadCloudConfig_def env_or_def parseInt_def
        is_js_whitespace_def is_digit_def digit_value_def)+


lemma eval_dry_normal:
  "map_sum id (\<lambda>e. (edition_id e, image_path (assets e), created_at (source_meta e), expires_at (assets e)))
     (fst (produceEdition example_normal_input (example_world True [example_stored_normal])))
   = Inr (''2025-12-24-normal-1'', ''2025/12/24/normal-1.png'',
          ''2025-12-24T00:00:00.000Z'', ''2026-01-23T00:00:02.000Z'')"
  by code_simp

lemma eval_live_normal:
  "map_sum id (\<lambda>e. (edition_id e, image_path (assets e), created_at (source_meta e), expires_at (assets e)))
     (fst (produceEdition example_normal_input (example_world False [example_stored_normal])))
   = Inr (''2025-12-24-normal-2'', ''2025/12/24/normal-2.png'',
          ''2025-12-24T00:00:00.000Z'', ''2026-01-23T00:00:02.000Z'')"
  by code_simp

lemma eval_live_essence:
  "map_sum id edition_id
     (fst (produceEdition example_essence_input (example_world False [example_stored_normal])))
   = Inr ''2025-12-24-essence''"
  by code_simp


lemma run_from_fst: "fst p = Inr x \<Longrightarrow> p = (Inr x, snd p)"
  by (simp add: prod_eq_iff)

lemma map_sum_Inr_D: "map_sum id g r = Inr y \<Longrightarrow> \<exists>x. r = Inr x \<and> g x = y"
  by (cases r) auto




text \<open>
  Claim C3 as stated fails: on the same request, store and clock, with one normal
  edition recorded, the dry run returns \<open>D-normal-1\<close> and the path
  \<open>.../normal-1.png\<close>, the run with dry-run off \<open>D-normal-2\<close> and
  \<open>.../normal-2.png\<close>.
\<close>

theorem produceEdition_dry_run_counterexample:
  "map_sum id (\<lambda>e. (edition_id e, image_path (assets e)))
     (fst (produceEdition example_normal_input (example_world True [example_stored_normal])))
     = Inr (''2025-12-24-normal-1'', ''2025/12/24/normal-1.png'')
   \<and> map_sum id (\<lambda>e. (edition_id e, image_path (assets e)))
     (fst (produceEdition example_normal_input (example_world False [example_stored_normal])))
     = Inr (''2025-12-24-normal-2'', ''2025/12/24/normal-2.png'')"
proof -
  from map_sum_Inr_D [OF eval_dry_normal] obtain ed where
    "fst (produceEdition example_normal_input (example_world True [example_stored_normal])) = Inr ed"
    and "edition_id ed = ''2025-12-24-normal-1''" and "image_path (assets ed) = ''2025/12/24/normal-1.png''"
    by auto
  moreover from map_sum_Inr_D [OF eval_live_normal] obtain el where
    "fst (produceEdition example_normal_input (example_world False [example_stored_normal])) = Inr el"
    and "edition_id el = ''2025-12-24-normal-2''" and "image_path (assets el) = ''2025/12/24/normal-2.png''"
    by auto
  ultimately show ?thesis by simp
qed

text \<open>
  A dry run and a run with dry-run off of the same essence request.
\<close>

theorem produceEdition_dry_run_witness:
  "dryRun (loadCloudConfig (env (example_world True [example_stored_normal])))
   \<and> \<not> dryRun (loadCloudConfig (env (example_world False [example_stored_normal])))
   \<and> post_type example_essence_input = Essence
   \<and> network (snd (produceEdition example_essence_input
                     (example_world True [example_stored_normal]))) = []
   \<and> map_sum id edition_id
        (fst (produceEdition example_essence_input (example_world True [example_stored_normal])))
      = Inr ''2025-12-24-essence''
   \<and> map_sum id edition_id
        (fst (produceEdition example_essence_input (example_world False [example_stored_normal])))
      = Inr ''2025-12-24-essence''"
proof -
  let ?wd = "example_world True [example_stored_normal]"
  let ?wl = "example_world False [example_stored_normal]"
  from map_sum_Inr_D [OF eval_live_essence] obtain el where
    el: "fst (produceEdition example_essence_input ?wl) = Inr el"
    and id: "edition_id el = ''2025-12-24-essence''" by blast
  have dry: "dryRun (loadCloudConfig (env ?wd))" and live: "\<not> dryRun (loadCloudConfig (env ?wl))"
    by (simp_all add: example_world_settings)
  have essence: "post_type example_essence_input = Essence"
    by (simp add: example_essence_input_def)
  have r: "assetRetentionDays (loadCloudConfig (env ?wl)) = assetRetentionDays (loadCloudConfig (env ?wd))"
    by (simp add: example_world_settings)
  have s: "clock ?wl = clock ?wd" "ticks ?wl = ticks ?wd" "collections ?wl = collections ?wd"
    by (simp_all add: example_world_def)
  from produceEdition_dry_run [OF example_world_config dry example_world_config live r s
         run_from_fst [OF el]] essence
  obtain ed where
    "network (snd (produceEdition example_essence_input ?wd)) = network ?wd"
    "fst (produceEdition example_essence_input ?wd) = Inr ed"
    "edition_id ed = edition_id el"
    by auto
  with el id dry live essence show ?thesis
    by (simp add: example_world_def)
qed


text \<open>
  A normal edition produced with dry-run off, and the document stored for it.
\<close>

theorem produceEdition_content_fields_witness:
  "(case post_type example_normal_input of
      Normal \<Rightarrow> emojis example_normal_input | Essence \<Rightarrow> essence example_normal_input)
     \<noteq> Undefined
   \<and> \<not> dryRun (loadCloudConfig (env (example_world False [example_stored_normal])))
   \<and> map_sum id (\<lambda>e. (CloudEdition.emojis e \<noteq> Undefined, CloudEdition.essence e \<noteq> Undefined))
        (fst (produceEdition example_normal_input (example_world False [example_stored_normal])))
      = Inr (True, False)
   \<and> map_option (\<lambda>d. (has_prop d ''emojis'', has_prop d ''essence''))
        (map_of (collections (snd (produceEdition example_normal_input
                    (example_world False [example_stored_normal]))) ''editions'')
           ''2025-12-24-normal-2'')
      = Some (True, False)"
proof -
  let ?w = "example_world False [example_stored_normal]"
  from map_sum_Inr_D [OF eval_live_normal] obtain ed where
    ed: "fst (produceEdition example_normal_input ?w) = Inr ed"
    and id: "edition_id ed = ''2025-12-24-normal-2''" by auto
  have live: "\<not> dryRun (loadCloudConfig (env ?w))" by (simp add: example_world_settings)
  have content: "(case post_type example_normal_input of
      Normal \<Rightarrow> emojis example_normal_input | Essence \<Rightarrow> essence example_normal_input)
     \<noteq> Undefined"
    by (simp add: example_normal_input_def)
  from produceEdition_content_fields [OF run_from_fst [OF ed] example_world_config content] live id
  show ?thesis using ed content
    by (simp add: example_world_settings example_normal_input_def)
qed

text \<open>
  The process then proceeds, and fails only when \<open>uploadImage\<close> formats the
  expiration.
\<close>

lemma NaN_retention_fails_at_upload:
  "fst (produceEdition example_normal_input
         ((example_world True [])\<lparr>env := [''CLOUD_DRY_RUN'' \<mapsto> ''true'',
                                            ''ASSET_RETENTION_DAYS'' \<mapsto> ''abc'']\<rparr>))
   = Inl (RangeError ''Invalid time value'')"
  by code_simp

text \<open>
  Claim C4 fails on the code. The expiration is counted from the clock reading in
  \<open>uploadImage\<close>, not from the creation instant: with 30 days of retention, a
  creation instant of 2025-12-24T00:00:00.000Z and two seconds between the two
  readings, the expiration is 2026-01-23T00:00:02.000Z.
\<close>

theorem expires_at_lags_created_at:
  "assetRetentionDays (loadCloudConfig (env (example_world True [example_stored_normal]))) = Num 30
   \<and> map_sum id (\<lambda>e. (created_at (source_meta e), expires_at (assets e)))
        (fst (produceEdition example_normal_input (example_world True [example_stored_normal])))
      = Inr (''2025-12-24T00:00:00.000Z'', ''2026-01-23T00:00:02.000Z'')"
proof -
  from map_sum_Inr_D [OF eval_dry_normal] obtain ed where
    "fst (produceEdition example_normal_input (example_world True [example_stored_normal])) = Inr ed"
    and "created_at (source_meta ed) = ''2025-12-24T00:00:00.000Z''"
    and "expires_at (assets ed) = ''2026-01-23T00:00:02.000Z''"
    by auto
  then show ?thesis by (simp add: example_world_settings)
qed

text \<open>
  Claim C10 as stated fails: with the dry-run flag on and a retention setting out of
  bounds, the health check throws the configuration error instead of reporting
  healthy.
\<close>

theorem healthCheck_dry_run_counterexample:
  "dryRun (loadCloudConfig (env invalid_dry_world))
   \<and> fst (healthCheck invalid_dry_world)
       = Inl (Error ''ASSET_RETENTION_DAYS must be between 1 and 365'')"
proof -
  have "getCloudConfig invalid_dry_world =
          (Inl (Error ''ASSET_RETENTION_DAYS must be between 1 and 365''),
           invalid_dry_world\<lparr>configInstance := Some (loadCloudConfig (env invalid_dry_world))\<rparr>)"
    by (simp add: getCloudConfig_def invalid_dry_world_def Let_def loadCloudConfig_def
          validateConfig_def env_or_def parseInt_def is_js_whitespace_def is_digit_def
          digit_value_def)
  from healthCheck_config_error [OF this] show ?thesis
    by (simp add: invalid_dry_world_def loadCloudConfig_def)
qed

end
